theory Spec2Isabelle
  imports Complex_Main "HOL-Library.Sublist"
begin

section \<open>Strings and paths\<close>

text \<open>
  A Python \<open>str\<close> is modelled as a \<open>string\<close>; each \<open>char\<close> stands for the code point
  of the same number (U+0000 to U+00FF). A \<open>str\<close> that comes from the operating system (a
  file name, a command-line argument) can also hold lone surrogates, which Python puts
  in the place of bytes that are not valid UTF-8; such a \<open>str\<close> cannot be encoded, and
  the environment says of a string whether the \<open>str\<close> it stands for can (\<open>encodable\<close>,
  below).

  A \<open>pathlib.Path\<close> is modelled by its anchor (the root \<open>/\<close> or \<open>//\<close> of an absolute
  path, empty for a relative one) and the list of the components after the anchor.
\<close>

type_synonym path = "string \<times> string list"

text \<open>The exceptions of the model: the ones the code, pathlib and sqlite3 raise.\<close>

datatype pyerror =
    ValueError
  | IntegrityError
  | OperationalError string
  | OverflowError
  | UnicodeEncodeError

text \<open>Splitting a string at every occurrence of a separator, as \<open>str.split(sep)\<close> does.\<close>

fun split_char :: "char \<Rightarrow> string \<Rightarrow> string list" where
  "split_char sep [] = [[]]"
| "split_char sep (c # cs) =
     (if c = sep then [] # split_char sep cs
      else (case split_char sep cs of
              [] \<Rightarrow> [[c]]
            | w # ws \<Rightarrow> (c # w) # ws))"

text \<open>
  The components pathlib keeps of a string: empty components and \<open>.\<close> are dropped
  (\<open>a//b\<close>, \<open>a/./b\<close> and \<open>a/b/\<close> all have the parts \<open>a\<close>, \<open>b\<close>), \<open>..\<close> is kept.
\<close>

definition path_segments :: "string \<Rightarrow> string list" where
  "path_segments s = filter (\<lambda>x. x \<noteq> [] \<and> x \<noteq> ''.'') (split_char CHR ''/'' s)"

text \<open>The root of a POSIX path string: \<open>/\<close>, or \<open>//\<close> for exactly two leading slashes.\<close>

definition posix_root :: "string \<Rightarrow> string" where
  "posix_root s =
     (if take 1 s = ''/'' then
        (if take 2 s = ''//'' \<and> take 3 s \<noteq> ''///'' then ''//'' else ''/'')
      else [])"

text \<open>\<open>Path(s)\<close>.\<close>

definition Path :: "string \<Rightarrow> path" where
  "Path s = (posix_root s, path_segments s)"

text \<open>A path extended by components: the path of something below it.\<close>

fun child :: "path \<Rightarrow> string list \<Rightarrow> path" where
  "child (a, ss) rel = (a, ss @ rel)"

text \<open>\<open>base / s\<close>: an absolute right operand replaces the left one.\<close>

definition joinpath :: "path \<Rightarrow> string \<Rightarrow> path" where
  "joinpath base s = (if posix_root s = [] then child base (path_segments s) else Path s)"

text \<open>\<open>p.parts\<close>: the anchor, when there is one, and the components.\<close>

fun path_parts :: "path \<Rightarrow> string list" where
  "path_parts (a, ss) = (if a = [] then ss else a # ss)"

fun join_with :: "string \<Rightarrow> string list \<Rightarrow> string" where
  "join_with sep [] = []"
| "join_with sep [x] = x"
| "join_with sep (x # y # ys) = x @ sep @ join_with sep (y # ys)"

text \<open>\<open>str(p)\<close>.\<close>

fun path_str :: "path \<Rightarrow> string" where
  "path_str (a, ss) = (if a = [] \<and> ss = [] then ''.'' else a @ join_with ''/'' ss)"

text \<open>\<open>p.name\<close>: the final component, empty for a path that is only a root or \<open>.\<close>.\<close>

fun path_name :: "path \<Rightarrow> string" where
  "path_name (a, ss) = (if ss = [] then [] else last ss)"

text \<open>
  \<open>p.relative_to(base)\<close>, as the parts of the relative path it returns. It raises
  \<open>ValueError\<close> unless the two paths have the same anchor and the components of \<open>base\<close>
  are the first components of \<open>p\<close>: an absolute path is relative to no relative path,
  not even to \<open>.\<close>.
\<close>

fun relative_to :: "path \<Rightarrow> path \<Rightarrow> pyerror + string list" where
  "relative_to (a, ss) (b, ts) =
     (if a = b \<and> prefix ts ss then Inr (drop (length ts) ss) else Inl ValueError)"

section \<open>The Path Classifier\<close>

definition VALID_TYPES :: "string set" where
  "VALID_TYPES = {''plans'', ''context'', ''research'', ''reviews'', ''filebox'',
                  ''history'', ''prompts'', ''features''}"

text \<open>\<open>\d\<close>: among the code points below 256 the decimal digits are \<open>0\<close> to \<open>9\<close>.\<close>

definition isdigit :: "char \<Rightarrow> bool" where
  "isdigit c = (c \<in> set ''0123456789'')"

definition newline :: char where
  "newline = CHR 0x0A"

text \<open>\<open>\d{n}\<close> at the head of a string: the rest of the string after \<open>n\<close> digits.\<close>

fun match_digits :: "nat \<Rightarrow> string \<Rightarrow> string option" where
  "match_digits 0 s = Some s"
| "match_digits (Suc n) [] = None"
| "match_digits (Suc n) (c # cs) = (if isdigit c then match_digits n cs else None)"

text \<open>
  What is left of a string after \<open>^\d{8}_\d{6}\<close> has matched at its start, if it does.
\<close>

definition timestamp_rest :: "string \<Rightarrow> string option" where
  "timestamp_rest s =
     (case match_digits 8 s of
        None \<Rightarrow> None
      | Some r1 \<Rightarrow>
          (case r1 of
             [] \<Rightarrow> None
           | c # r2 \<Rightarrow> (if c = CHR ''_'' then match_digits 6 r2 else None)))"

text \<open>
  \<open>TIMESTAMP_RE.match(s)\<close> for \<open>TIMESTAMP_RE = re.compile(r"^\d{8}_\d{6}$")\<close>. Without
  the \<open>MULTILINE\<close> flag Python's \<open>$\<close> matches at the end of the string and also just
  before a newline that is the last character of the string.
\<close>

definition TIMESTAMP_RE_match :: "string \<Rightarrow> bool" where
  "TIMESTAMP_RE_match s =
     (case timestamp_rest s of
        None \<Rightarrow> False
      | Some r \<Rightarrow> r = [] \<or> r = [newline])"

text \<open>
  The specification's condition: the whole segment matches \<open>\d{8}_\d{6}\<close>, nothing
  before and nothing after.
\<close>

definition timestamp_fullmatch :: "string \<Rightarrow> bool" where
  "timestamp_fullmatch s = (timestamp_rest s = Some [])"

record facets =
  project :: string
  branch :: string
  timestamp :: string
  dir_type :: "string option"

definition parse_archive_path :: "path \<Rightarrow> path \<Rightarrow> pyerror + facets option" where
  "parse_archive_path filepath archive_base =
     (case relative_to filepath archive_base of
        Inl e \<Rightarrow> Inl e
      | Inr parts \<Rightarrow>
          if length parts < 4 then Inr None
          else if \<not> TIMESTAMP_RE_match (parts ! 2) then Inr None
          else Inr (Some \<lparr>project = parts ! 0,
                          branch = parts ! 1,
                          timestamp = parts ! 2,
                          dir_type =
                            (if length parts > 3 \<and> parts ! 3 \<in> VALID_TYPES then Some (parts ! 3)
                             else if length parts > 3 then Some ''root''
                             else None)\<rparr>))"

text \<open>
  The archive path convention of the specification, on the path relative to the root:
  \<open><project>/<branch>/<timestamp>/[<category>/]<filename>.md\<close> with the timestamp in
  the format \<open>YYYYMMDD_HHMMSS\<close> and the category, when present, one of the known ones.
\<close>

definition archive_convention :: "string list \<Rightarrow> bool" where
  "archive_convention rel =
     (case rel of
        [p, b, t, f] \<Rightarrow> timestamp_fullmatch t \<and> suffix ''.md'' f
      | [p, b, t, c, f] \<Rightarrow> timestamp_fullmatch t \<and> c \<in> VALID_TYPES \<and> suffix ''.md'' f
      | _ \<Rightarrow> False)"

text \<open>
  Rebuilding a relative path from the facets and the file name, following the
  specification: the category segment is optional, and is absent when the category is
  the \<open>root\<close> marker.
\<close>

definition rebuild_rel_path :: "facets \<Rightarrow> string \<Rightarrow> string list" where
  "rebuild_rel_path f name =
     [project f, branch f, timestamp f]
       @ (case dir_type f of
            None \<Rightarrow> []
          | Some c \<Rightarrow> (if c = ''root'' then [] else [c]))
       @ [name]"

section \<open>The environment\<close>

text \<open>
  What the program reads from outside: the archive root (\<open>ARCHIVE_BASE\<close>, fixed when the
  module is loaded and never resolved), the file system and the clock. \<open>walk start\<close>
  lists, in the order of the traversal, the paths relative to \<open>start\<close> of everything a
  recursive glob visits below it. \<open>read_text\<close> is \<open>None\<close> when reading raises \<open>OSError\<close>
  (of which \<open>PermissionError\<close> is a subclass); undecodable bytes of the content are
  replaced, not raised (\<open>errors="replace"\<close>), so a content is always encodable.
  \<open>encodable s\<close> is false when the \<open>str\<close> that \<open>s\<close> stands for holds a lone surrogate:
  sqlite3 refuses such a \<open>str\<close> as a parameter, with \<open>UnicodeEncodeError\<close>.
\<close>

record environment =
  ARCHIVE_BASE :: path
  path_exists :: "path \<Rightarrow> bool"
  walk :: "path \<Rightarrow> string list list"
  is_symlink :: "path \<Rightarrow> bool"
  resolve :: "path \<Rightarrow> path"
  is_dir :: "path \<Rightarrow> bool"
  read_text :: "path \<Rightarrow> string option"
  now :: string
  encodable :: "string \<Rightarrow> bool"

definition DB_PATH :: "'a environment_scheme \<Rightarrow> path" where
  "DB_PATH env = joinpath (ARCHIVE_BASE env) ''archives.db''"

text \<open>
  \<open>start.rglob(pattern)\<close> for a pattern without a slash: the paths below \<open>start\<close>
  whose final component matches, each one \<open>start\<close> extended by a relative path.
\<close>

definition rglob :: "'a environment_scheme \<Rightarrow> path \<Rightarrow> (string \<Rightarrow> bool) \<Rightarrow> path list" where
  "rglob env start name_ok =
     map (child start)
       (filter (\<lambda>rel. rel \<noteq> [] \<and> name_ok (last rel)) (walk env start))"

section \<open>The Latest Resolver\<close>

definition resolve_latest_timestamps :: "'a environment_scheme \<Rightarrow> path \<Rightarrow> string set" where
  "resolve_latest_timestamps env archive_base =
     set (map (\<lambda>link. path_str (resolve env link))
            (filter (\<lambda>link. is_symlink env link \<and> is_dir env (resolve env link))
               (rglob env archive_base (\<lambda>name. name = ''latest''))))"

section \<open>The Index Store\<close>

text \<open>
  The two tables of the database. A row of \<open>documents\<close> has the four facets and the
  columns \<open>id\<close> (here \<open>doc_id\<close>), \<open>filepath\<close>, \<open>filename\<close>, \<open>is_latest\<close> and
  \<open>indexed_at\<close>; a row of \<open>documents_fts\<close> is a \<open>rowid\<close> and the content. A table that
  was never created is an empty one, so \<open>CREATE TABLE IF NOT EXISTS\<close> changes nothing.
\<close>

record document = facets +
  doc_id :: nat
  filepath :: string
  filename :: string
  is_latest :: int
  indexed_at :: string

record store =
  documents :: "document list"
  documents_fts :: "(nat \<times> string) list"

definition init_schema :: "store \<Rightarrow> store" where
  "init_schema s = \<lparr>documents = [], documents_fts = []\<rparr>"

definition ensure_schema :: "store \<Rightarrow> store" where
  "ensure_schema s = s"

text \<open>
  The key SQLite gives a new row of a table with an \<open>INTEGER PRIMARY KEY\<close>: one more
  than the largest key in use, 1 in an empty table.
\<close>

definition next_rowid :: "document list \<Rightarrow> nat" where
  "next_rowid docs = fold max (map doc_id docs) 0 + 1"

text \<open>
  \<open>INSERT INTO documents\<close> followed by \<open>SELECT last_insert_rowid()\<close>. The parameters
  are bound before the statement runs: a text parameter that cannot be encoded raises
  \<open>UnicodeEncodeError\<close> (\<open>enc\<close> says which can). Then the column \<open>filepath\<close> is
  \<open>UNIQUE\<close>, and a second row with the same path raises \<open>IntegrityError\<close>.
\<close>

definition document_row ::
  "facets \<Rightarrow> nat \<Rightarrow> string \<Rightarrow> string \<Rightarrow> int \<Rightarrow> string \<Rightarrow> document" where
  "document_row parsed i fp fname latest indexed =
     \<lparr>project = project parsed, branch = branch parsed,
      timestamp = timestamp parsed, dir_type = dir_type parsed,
      doc_id = i, filepath = fp, filename = fname,
      is_latest = latest, indexed_at = indexed\<rparr>"

definition text_parameters :: "facets \<Rightarrow> string \<Rightarrow> string \<Rightarrow> string \<Rightarrow> string list" where
  "text_parameters parsed fp fname indexed =
     [project parsed, branch parsed, timestamp parsed]
       @ (case dir_type parsed of None \<Rightarrow> [] | Some c \<Rightarrow> [c])
       @ [fp, fname, indexed]"

definition insert_document ::
  "(string \<Rightarrow> bool) \<Rightarrow> store \<Rightarrow> facets \<Rightarrow> string \<Rightarrow> string \<Rightarrow> int \<Rightarrow> string
     \<Rightarrow> pyerror + store \<times> nat" where
  "insert_document enc s parsed fp fname latest indexed =
     (if \<not> list_all enc (text_parameters parsed fp fname indexed) then Inl UnicodeEncodeError
      else if fp \<in> set (map filepath (documents s)) then Inl IntegrityError
      else
        let i = next_rowid (documents s)
        in Inr (s\<lparr>documents := documents s @ [document_row parsed i fp fname latest indexed]\<rparr>,
                i))"

text \<open>
  \<open>INSERT INTO documents_fts (rowid, content)\<close>: a \<open>rowid\<close> in use is refused. The
  content was decoded with \<open>errors="replace"\<close> and can always be encoded.
\<close>

definition insert_fts :: "store \<Rightarrow> nat \<Rightarrow> string \<Rightarrow> pyerror + store" where
  "insert_fts s rowid content =
     (if rowid \<in> set (map fst (documents_fts s)) then Inl IntegrityError
      else Inr (s\<lparr>documents_fts := documents_fts s @ [(rowid, content)]\<rparr>))"

text \<open>
  The deletes of a scoped rebuild: the content rows of the project's documents, one
  \<open>DELETE\<close> for each \<open>id\<close> selected, then the documents themselves.
\<close>

definition delete_project :: "string \<Rightarrow> store \<Rightarrow> store" where
  "delete_project p s =
     (let existing = map doc_id (filter (\<lambda>d. project d = p) (documents s))
      in \<lparr>documents = filter (\<lambda>d. project d \<noteq> p) (documents s),
          documents_fts =
            fold (\<lambda>i rows. filter (\<lambda>row. fst row \<noteq> i) rows) existing (documents_fts s)\<rparr>)"

section \<open>The Indexer\<close>

definition SKIP_FILES :: "string set" where
  "SKIP_FILES = {''.scratch-index'', ''.DS_Store''}"

definition SKIP_DIRS :: "string set" where
  "SKIP_DIRS = {''.git''}"

text \<open>The truth value of an optional string argument: \<open>None\<close> and \<open>""\<close> are false.\<close>

definition truthy :: "string option \<Rightarrow> bool" where
  "truthy a = (case a of None \<Rightarrow> False | Some v \<Rightarrow> v \<noteq> [])"

text \<open>
  The body of the loop over the files found, on the state of the run: the store as
  modified so far, \<open>count\<close> and \<open>errors\<close>. The two \<open>try\<close> statements catch \<open>OSError\<close>
  around the read and \<open>sqlite3.IntegrityError\<close> around the two inserts; any other
  exception ends the run (\<open>Inl\<close>).
\<close>

definition ingest_file ::
  "'a environment_scheme \<Rightarrow> string set \<Rightarrow> path \<Rightarrow> store \<times> nat \<times> nat
     \<Rightarrow> pyerror + store \<times> nat \<times> nat" where
  "ingest_file env latest_dirs md_file acc =
     (case acc of (s, count, errors) \<Rightarrow>
        if path_name md_file \<in> SKIP_FILES then Inr acc
        else if \<exists>skip\<in>SKIP_DIRS. skip \<in> set (path_parts md_file) then Inr acc
        else
          (case parse_archive_path md_file (ARCHIVE_BASE env) of
             Inl e \<Rightarrow> Inl e
           | Inr None \<Rightarrow> Inr acc
           | Inr (Some parsed) \<Rightarrow>
               let ts_dir = joinpath (joinpath (joinpath (ARCHIVE_BASE env) (project parsed))
                                        (branch parsed)) (timestamp parsed);
                   latest = (if path_str ts_dir \<in> latest_dirs then 1 else 0)
               in (case read_text env md_file of
                     None \<Rightarrow> Inr (s, count, errors + 1)
                   | Some content \<Rightarrow>
                       (case insert_document (encodable env) s parsed (path_str md_file)
                               (path_name md_file) latest (now env) of
                          Inl e \<Rightarrow>
                            if e = IntegrityError then Inr (s, count, errors + 1) else Inl e
                        | Inr (s1, i) \<Rightarrow>
                            (case insert_fts s1 i content of
                               Inl e \<Rightarrow>
                                 if e = IntegrityError then Inr (s1, count, errors + 1)
                                 else Inl e
                             | Inr s2 \<Rightarrow> Inr (s2, count + 1, errors))))))"

fun ingest_files ::
  "'a environment_scheme \<Rightarrow> string set \<Rightarrow> path list \<Rightarrow> store \<times> nat \<times> nat
     \<Rightarrow> pyerror + store \<times> nat \<times> nat" where
  "ingest_files env latest_dirs [] acc = Inr acc"
| "ingest_files env latest_dirs (md_file # rest) acc =
     (case ingest_file env latest_dirs md_file acc of
        Inl e \<Rightarrow> Inl e
      | Inr acc' \<Rightarrow> ingest_files env latest_dirs rest acc')"

text \<open>The lines a command prints, by the format string that produces them.\<close>

datatype message =
    ArchiveDirNotFound path
  | ProjectNotFound string
  | Indexed nat path
  | Skipped nat
  | NoDatabase path
  | SearchError string
  | SearchTip
  | NoResults string

record run_result =
  exit_code :: int
  stdout :: "message list"
  stderr :: "message list"

text \<open>The directory a run scans: the project's when one is named, else the root.\<close>

definition scan_root :: "'a environment_scheme \<Rightarrow> string option \<Rightarrow> path" where
  "scan_root env arg_project =
     (if truthy arg_project then joinpath (ARCHIVE_BASE env) (the arg_project)
      else ARCHIVE_BASE env)"

text \<open>
  The content committed before the scan: a scoped rebuild deletes the rows of the
  project, a full rebuild drops and recreates both tables.
\<close>

definition clear_scope :: "string option \<Rightarrow> store \<Rightarrow> store" where
  "clear_scope arg_project s =
     (if truthy arg_project then delete_project (the arg_project) (ensure_schema s)
      else init_schema s)"

text \<open>
  \<open>do_ingest\<close> on the committed content of the database. It returns the result of the
  command and the content committed at its end (\<open>Inr\<close>); when an exception escapes
  (\<open>Inl\<close>), the rows inserted since the last commit are lost and the content is the
  one committed last. A scoped run binds the project argument as the parameter of its
  \<open>SELECT\<close>, before it deletes anything.
\<close>

definition do_ingest ::
  "'a environment_scheme \<Rightarrow> string option \<Rightarrow> store \<Rightarrow> pyerror \<times> store + run_result \<times> store" where
  "do_ingest env arg_project s =
     (let archive_base = ARCHIVE_BASE env in
      if \<not> path_exists env archive_base then
        Inr (\<lparr>exit_code = 1, stdout = [], stderr = [ArchiveDirNotFound archive_base]\<rparr>, s)
      else if truthy arg_project \<and> \<not> path_exists env (scan_root env arg_project) then
        Inr (\<lparr>exit_code = 1, stdout = [], stderr = [ProjectNotFound (the arg_project)]\<rparr>, s)
      else if truthy arg_project \<and> \<not> encodable env (the arg_project) then
        Inl (UnicodeEncodeError, ensure_schema s)
      else
        let s0 = clear_scope arg_project s;
            latest_dirs = resolve_latest_timestamps env archive_base
        in (case ingest_files env latest_dirs
                   (rglob env (scan_root env arg_project) (suffix ''.md'')) (s0, 0, 0) of
              Inl e \<Rightarrow> Inl (e, s0)
            | Inr (s1, count, errors) \<Rightarrow>
                Inr (\<lparr>exit_code = 0,
                      stdout = Indexed count (DB_PATH env)
                                 # (if errors \<noteq> 0 then [Skipped errors] else []),
                      stderr = []\<rparr>, s1)))"


section \<open>Notions of the claims about ingestion\<close>


text \<open>The directory \<open><root>/<project>/<branch>/<timestamp>\<close> of a document.\<close>

definition timestamp_dir :: "'a environment_scheme \<Rightarrow> 'b facets_scheme \<Rightarrow> path" where
  "timestamp_dir env f =
     joinpath (joinpath (joinpath (ARCHIVE_BASE env) (project f)) (branch f)) (timestamp f)"

section \<open>The Query Engine\<close>

text \<open>
  The full-text engine (SQLite FTS5) is outside the program. Of it the model takes:
  whether a query text parses (\<open>fts5_syntax_error\<close> gives the message of the error when
  it does not), which contents a query matches, and the value of the column \<open>rank\<close>
  for a matching row of the content table. A better match has a smaller \<open>rank\<close>.
\<close>

record fts5 =
  fts5_syntax_error :: "string \<Rightarrow> string option"
  fts5_match :: "string \<Rightarrow> string \<Rightarrow> bool"
  fts5_rank :: "string \<Rightarrow> (nat \<times> string) list \<Rightarrow> nat \<Rightarrow> real"

text \<open>The arguments of a search. The limit \<open>n\<close> is any integer the command line gives.\<close>

record search_args =
  arg_pattern :: string
  arg_project :: "string option"
  arg_type :: "string option"
  arg_branch :: "string option"
  arg_latest :: bool
  arg_n :: int

text \<open>
  The list \<open>where\<close>: one condition for each filter argument that is true as a Python
  value. In SQL a \<open>dir_type\<close> that is \<open>NULL\<close> equals no parameter.
\<close>

definition where_conditions :: "search_args \<Rightarrow> (document \<Rightarrow> bool) list" where
  "where_conditions args =
     (if truthy (arg_project args) then [\<lambda>d. project d = the (arg_project args)] else [])
     @ (if truthy (arg_type args) then [\<lambda>d. dir_type d = Some (the (arg_type args))] else [])
     @ (if truthy (arg_branch args) then [\<lambda>d. branch d = the (arg_branch args)] else [])
     @ (if arg_latest args then [\<lambda>d. is_latest d = 1] else [])"

text \<open>
  \<open>FROM documents_fts f JOIN documents d ON d.id = f.rowid WHERE documents_fts MATCH ?\<close>
  and the conditions of \<open>where\<close>, joined by \<open>AND\<close>: the documents selected, each with its
  rank.
\<close>

definition matching_documents ::
  "fts5 \<Rightarrow> store \<Rightarrow> search_args \<Rightarrow> (document \<times> real) list" where
  "matching_documents eng s args =
     concat (map (\<lambda>f.
        map (\<lambda>d. (d, fts5_rank eng (arg_pattern args) (documents_fts s) (fst f)))
          (filter (\<lambda>d. doc_id d = fst f
                       \<and> fts5_match eng (arg_pattern args) (snd f)
                       \<and> list_all (\<lambda>cond. cond d) (where_conditions args))
             (documents s)))
       (documents_fts s))"

text \<open>\<open>LIMIT n\<close>: SQLite puts no upper bound on the number of rows when \<open>n\<close> is negative.\<close>

definition sql_limit :: "int \<Rightarrow> 'a list \<Rightarrow> 'a list" where
  "sql_limit k rows = (if k < 0 then rows else take (nat k) rows)"

type_synonym result_row =
  "string \<times> string \<times> string \<times> string \<times> string option \<times> string \<times> real"

definition result_columns :: "document \<times> real \<Rightarrow> result_row" where
  "result_columns dr =
     (case dr of (d, r) \<Rightarrow>
        (filepath d, project d, branch d, timestamp d, dir_type d, filename d, r))"

definition row_rank :: "result_row \<Rightarrow> real" where
  "row_rank row = (case row of (fp, p, b, ts, dt, fname, r) \<Rightarrow> r)"

text \<open>
  The text parameters of the query in the order in which they are bound: the pattern,
  then the value of each filter that is applied. The limit is bound last.
\<close>

definition bound_strings :: "search_args \<Rightarrow> string list" where
  "bound_strings args =
     arg_pattern args
       # (if truthy (arg_project args) then [the (arg_project args)] else [])
       @ (if truthy (arg_type args) then [the (arg_type args)] else [])
       @ (if truthy (arg_branch args) then [the (arg_branch args)] else [])"

text \<open>The integers of SQLite: 64 bits, signed.\<close>

definition int64 :: "int \<Rightarrow> bool" where
  "int64 k = (- (2 ^ 63) \<le> k \<and> k < 2 ^ 63)"

text \<open>
  \<open>db.execute(sql, params).fetchall()\<close>. The parameters are bound first: a text that
  cannot be encoded raises \<open>UnicodeEncodeError\<close>, a limit that does not fit in 64 bits
  raises \<open>OverflowError\<close>. Then the statement runs. With \<open>LIMIT 0\<close> SQLite returns no row
  without ever evaluating the \<open>MATCH\<close>, so that a query text that does not parse goes
  unnoticed; with any other limit such a query text raises \<open>sqlite3.OperationalError\<close>
  with the message of the engine. Otherwise the rows selected, \<open>ORDER BY rank LIMIT ?\<close>.
  (The database is the one \<open>ingest\<close> writes: the two tables and no planner statistics,
  which the program never collects, so that the \<open>MATCH\<close> drives the query whatever the
  filters are.)
\<close>

definition execute_search ::
  "(string \<Rightarrow> bool) \<Rightarrow> fts5 \<Rightarrow> store \<Rightarrow> search_args \<Rightarrow> pyerror + result_row list" where
  "execute_search enc eng s args =
     (if \<not> list_all enc (bound_strings args) then Inl UnicodeEncodeError
      else if \<not> int64 (arg_n args) then Inl OverflowError
      else if arg_n args = 0 then Inr []
      else
        (case fts5_syntax_error eng (arg_pattern args) of
           Some msg \<Rightarrow> Inl (OperationalError msg)
         | None \<Rightarrow>
             Inr (map result_columns
                    (sql_limit (arg_n args) (sort_key snd (matching_documents eng s args))))))"

text \<open>
  \<open>do_search\<close> up to the choice of the presentation: it ends with a return code, or
  hands rows, of which there is at least one, to the interactive picker or to the plain
  printer, in the order of the query, or an exception escapes it. The \<open>try\<close> statement
  around the query catches \<open>sqlite3.OperationalError\<close> and nothing else.
\<close>

datatype search_outcome = Exit run_result | Present "result_row list" | Raised pyerror

definition do_search ::
  "'a environment_scheme \<Rightarrow> fts5 \<Rightarrow> store \<Rightarrow> search_args \<Rightarrow> search_outcome" where
  "do_search env eng s args =
     (if \<not> path_exists env (DB_PATH env) then
        Exit \<lparr>exit_code = 1, stdout = [], stderr = [NoDatabase (DB_PATH env)]\<rparr>
      else
        (case execute_search (encodable env) eng s args of
           Inl e \<Rightarrow>
             (case e of
                OperationalError msg \<Rightarrow>
                  Exit \<lparr>exit_code = 1, stdout = [], stderr = [SearchError msg, SearchTip]\<rparr>
              | _ \<Rightarrow> Raised e)
         | Inr rows \<Rightarrow>
             if rows = [] then
               Exit \<lparr>exit_code = 0, stdout = [NoResults (arg_pattern args)], stderr = []\<rparr>
             else Present rows))"

section \<open>The line locator of the Result Presenter\<close>

text \<open>
  \<open>str.isspace\<close>, \<open>str.lower\<close> and the line boundaries of \<open>str.splitlines\<close> on the code
  points below 256.
\<close>

definition isspace :: "char \<Rightarrow> bool" where
  "isspace c =
     (let k = (of_char c :: nat)
      in (9 \<le> k \<and> k \<le> 13) \<or> (28 \<le> k \<and> k \<le> 32) \<or> k = 133 \<or> k = 160)"

definition lower_char :: "char \<Rightarrow> char" where
  "lower_char c =
     (let k = (of_char c :: nat)
      in if (65 \<le> k \<and> k \<le> 90) \<or> (192 \<le> k \<and> k \<le> 222 \<and> k \<noteq> 215) then char_of (k + 32)
         else c)"

definition lower :: "string \<Rightarrow> string" where
  "lower s = map lower_char s"

definition is_linebreak :: "char \<Rightarrow> bool" where
  "is_linebreak c =
     (let k = (of_char c :: nat) in (10 \<le> k \<and> k \<le> 13) \<or> (28 \<le> k \<and> k \<le> 30) \<or> k = 133)"

text \<open>\<open>s.split()\<close>: the maximal runs of characters that are not white space.\<close>

fun split_words :: "string \<Rightarrow> string \<Rightarrow> string list" where
  "split_words w [] = (if w = [] then [] else [rev w])"
| "split_words w (c # cs) =
     (if isspace c then (if w = [] then split_words [] cs else rev w # split_words [] cs)
      else split_words (c # w) cs)"

definition split :: "string \<Rightarrow> string list" where
  "split s = split_words [] s"

text \<open>
  \<open>s.splitlines()\<close>: the flag says that the character before was a carriage return
  that ended a line, so that a line feed after it belongs to the same boundary.
\<close>

fun splitlines_from :: "bool \<Rightarrow> string \<Rightarrow> string list" where
  "splitlines_from after_cr [] = []"
| "splitlines_from after_cr (c # cs) =
     (if after_cr \<and> c = CHR 0x0A then splitlines_from False cs
      else if is_linebreak c then [] # splitlines_from (c = CHR 0x0D) cs
      else (case splitlines_from False cs of
              [] \<Rightarrow> [[c]]
            | l # ls \<Rightarrow> (c # l) # ls))"

definition splitlines :: "string \<Rightarrow> string list" where
  "splitlines s = splitlines_from False s"

text \<open>
  The loop over \<open>enumerate(lines, i)\<close>: the number of the first line that contains one
  of the terms, both in lower case; \<open>t in line\<close> is \<open>sublist t line\<close>.
\<close>

fun first_match_line :: "string list \<Rightarrow> nat \<Rightarrow> string list \<Rightarrow> nat option" where
  "first_match_line terms i [] = None"
| "first_match_line terms i (line # rest) =
     (if \<exists>t\<in>set terms. sublist (lower t) (lower line) then Some i
      else first_match_line terms (Suc i) rest)"

text \<open>The terms of a query: its words once every double quote is removed.\<close>

definition query_terms :: "string \<Rightarrow> string list" where
  "query_terms pattern = split (filter (\<lambda>c. c \<noteq> CHR 0x22) pattern)"

text \<open>\<open>_find_match_line\<close>.\<close>

definition find_match_line :: "'a environment_scheme \<Rightarrow> string \<Rightarrow> string \<Rightarrow> nat" where
  "find_match_line env fp pattern =
     (let terms = query_terms pattern
      in case read_text env (Path fp) of
           None \<Rightarrow> 1
         | Some text \<Rightarrow>
             (case first_match_line terms 1 (splitlines text) of
                Some i \<Rightarrow> i
              | None \<Rightarrow> 1))"

section \<open>What the claims about search say of a document\<close>

text \<open>
  A filter argument that is given (not \<open>None\<close>) holds of a document when the document has
  that value; \<open>satisfies_supplied\<close> is the conjunction over the arguments given.
\<close>

definition satisfies_supplied :: "search_args \<Rightarrow> document \<Rightarrow> bool" where
  "satisfies_supplied args d =
     ((case arg_project args of None \<Rightarrow> True | Some v \<Rightarrow> project d = v)
      \<and> (case arg_type args of None \<Rightarrow> True | Some v \<Rightarrow> dir_type d = Some v)
      \<and> (case arg_branch args of None \<Rightarrow> True | Some v \<Rightarrow> branch d = v)
      \<and> (arg_latest args \<longrightarrow> is_latest d = 1))"

text \<open>The same, for the arguments given that are not the empty string.\<close>

definition satisfies_nonempty :: "search_args \<Rightarrow> document \<Rightarrow> bool" where
  "satisfies_nonempty args d =
     ((case arg_project args of None \<Rightarrow> True | Some v \<Rightarrow> v = [] \<or> project d = v)
      \<and> (case arg_type args of None \<Rightarrow> True | Some v \<Rightarrow> v = [] \<or> dir_type d = Some v)
      \<and> (case arg_branch args of None \<Rightarrow> True | Some v \<Rightarrow> v = [] \<or> branch d = v)
      \<and> (arg_latest args \<longrightarrow> is_latest d = 1))"

section \<open>Notions for the proofs about ingestion\<close>





section \<open>A small archive\<close>

text \<open>
  An archive with two projects, used to run the definitions: \<open>proj\<close> has a branch with
  two timestamp directories, the newer one the target of the link \<open>latest\<close>, and one
  file that cannot be read; \<open>other\<close> has a file directly in its timestamp directory
  and a loose file.
\<close>

text \<open>The traversal of a tree given as the list of its paths, in that order.\<close>

definition walk_tree :: "path list \<Rightarrow> path \<Rightarrow> string list list" where
  "walk_tree tree start =
     map (\<lambda>p. drop (length (snd start)) (snd p))
       (filter (\<lambda>p. fst p = fst start \<and> prefix (snd start) (snd p) \<and> p \<noteq> start) tree)"

definition example_tree :: "path list" where
  "example_tree =
     [(''/'', [''a'', ''proj'', ''main'', ''latest'']),
      (''/'', [''a'', ''proj'', ''main'', ''20240101_120000'', ''plans'', ''x.md'']),
      (''/'', [''a'', ''proj'', ''main'', ''20240101_120000'', ''research'', ''y.md'']),
      (''/'', [''a'', ''proj'', ''main'', ''20231231_235959'', ''plans'', ''locked.md'']),
      (''/'', [''a'', ''other'', ''dev'', ''20240202_090000'', ''notes.md'']),
      (''/'', [''a'', ''other'', ''README.md''])]"

definition example_env :: environment where
  "example_env =
     \<lparr>ARCHIVE_BASE = (''/'', [''a'']),
      path_exists = (\<lambda>p. p \<in> {(''/'', [''a'']), (''/'', [''a'', ''archives.db'']),
                               (''/'', [''a'', ''proj'']), (''/'', [''a'', ''other'']),
                               (''/'', [''a'', ''proj'', ''main''])}),
      walk = walk_tree example_tree,
      is_symlink = (\<lambda>p. p = (''/'', [''a'', ''proj'', ''main'', ''latest''])),
      resolve = (\<lambda>p. if p = (''/'', [''a'', ''proj'', ''main'', ''latest''])
                      then (''/'', [''a'', ''proj'', ''main'', ''20240101_120000'']) else p),
      is_dir = (\<lambda>p. p = (''/'', [''a'', ''proj'', ''main'', ''20240101_120000''])),
      read_text =
        map_of
          [((''/'', [''a'', ''proj'', ''main'', ''20240101_120000'', ''plans'', ''x.md'']),
            ''jwt rotation bug''),
           ((''/'', [''a'', ''proj'', ''main'', ''20240101_120000'', ''research'', ''y.md'']),
            ''jwt rotation design notes''),
           ((''/'', [''a'', ''other'', ''dev'', ''20240202_090000'', ''notes.md'']),
            ''notes on JWT''),
           ((''/'', [''a'', ''other'', ''README.md'']), ''readme'')],
      now = ''2024-01-02T10:00:00'',
      encodable = (\<lambda>s. True)\<rparr>"

text \<open>
  A toy engine: a query with an odd number of double quotes does not parse; a content
  matches when it contains every term; the rank is minus the number of terms over the
  number of words of the content.
\<close>

definition example_engine :: fts5 where
  "example_engine =
     \<lparr>fts5_syntax_error =
        (\<lambda>q. if odd (length (filter (\<lambda>c. c = CHR 0x22) q))
              then Some ''unterminated string'' else None),
      fts5_match =
        (\<lambda>q content. list_all (\<lambda>t. sublist (lower t) (lower content)) (query_terms q)),
      fts5_rank =
        (\<lambda>q table i. - real (length (query_terms q))
                       / real (length (concat (map (\<lambda>row. split (snd row))
                                                 (filter (\<lambda>row. fst row = i) table)))))\<rparr>"

definition example_documents :: "document list" where
  "example_documents =
     [\<lparr>project = ''proj'', branch = ''main'', timestamp = ''20240101_120000'',
       dir_type = Some ''research'', doc_id = 1,
       filepath = ''/a/proj/main/20240101_120000/research/y.md'', filename = ''y.md'',
       is_latest = 1, indexed_at = ''2024-01-01T18:00:00''\<rparr>,
      \<lparr>project = ''proj'', branch = ''main'', timestamp = ''20240101_120000'',
       dir_type = Some ''plans'', doc_id = 2,
       filepath = ''/a/proj/main/20240101_120000/plans/x.md'', filename = ''x.md'',
       is_latest = 1, indexed_at = ''2024-01-01T18:00:00''\<rparr>,
      \<lparr>project = ''other'', branch = ''dev'', timestamp = ''20240202_090000'',
       dir_type = Some ''root'', doc_id = 3,
       filepath = ''/a/other/dev/20240202_090000/notes.md'', filename = ''notes.md'',
       is_latest = 0, indexed_at = ''2024-01-01T18:00:00''\<rparr>]"

definition example_store :: store where
  "example_store =
     \<lparr>documents = example_documents,
      documents_fts = [(1, ''jwt rotation design notes''), (2, ''jwt rotation bug''),
                       (3, ''notes on JWT'')]\<rparr>"

definition example_args :: search_args where
  "example_args =
     \<lparr>arg_pattern = ''jwt rotation'', arg_project = Some ''proj'', arg_type = None,
      arg_branch = None, arg_latest = True, arg_n = 20\<rparr>"


text \<open>An environment with a markdown file in a directory outside the archive.\<close>

definition stray_env :: environment where
  "stray_env =
     example_env
       \<lparr>path_exists := (\<lambda>p. p \<in> {(''/'', [''a'']), (''/'', [''tmp''])}),
        walk := (\<lambda>start. if start = (''/'', [''tmp'']) then [[''notes.md'']] else [])\<rparr>"

text \<open>
  An archive with a file whose name has the byte E9 (an accented letter in Latin-1)
  before the extension: the name is not valid UTF-8, and Python reads it as a \<open>str\<close>
  with a lone surrogate in the place of the byte. In this environment the char E9
  stands for that surrogate.
\<close>

definition badname_env :: environment where
  "badname_env =
     example_env
       \<lparr>walk :=
          walk_tree
            [(''/'', [''a'', ''proj'', ''main'', ''20240101_120000'', ''plans'', ''x.md'']),
             (''/'', [''a'', ''proj'', ''main'', ''20240101_120000'', ''plans'',
                      ''menu'' @ [CHR 0xE9] @ ''.md'']),
             (''/'', [''a'', ''proj'', ''main'', ''20240101_120000'', ''research'', ''y.md''])],
        read_text :=
          (\<lambda>p. if p = (''/'', [''a'', ''proj'', ''main'', ''20240101_120000'', ''plans'',
                                 ''menu'' @ [CHR 0xE9] @ ''.md''])
                 then Some ''soup'' else read_text example_env p),
        encodable := (\<lambda>s. CHR 0xE9 \<notin> set s)\<rparr>"

text \<open>
  An archive whose root \<open>/link\<close> is a symbolic link to the directory \<open>/real\<close>, as the
  environment variable \<open>SCRATCH_ARCHIVE_BASE\<close> gives it. It has one branch with one
  timestamp directory, which is the target of the link \<open>latest\<close> of the branch, and one
  file in it.
\<close>

definition linked_env :: environment where
  "linked_env =
     \<lparr>ARCHIVE_BASE = (''/'', [''link'']),
      path_exists = (\<lambda>p. p \<in> {(''/'', [''link'']), (''/'', [''link'', ''archives.db''])}),
      walk =
        walk_tree
          [(''/'', [''link'', ''proj'', ''main'', ''latest'']),
           (''/'', [''link'', ''proj'', ''main'', ''20240101_120000'', ''plans'', ''x.md''])],
      is_symlink = (\<lambda>p. p \<in> {(''/'', [''link'']),
                                (''/'', [''link'', ''proj'', ''main'', ''latest''])}),
      resolve =
        (\<lambda>p. if p = (''/'', [''link'', ''proj'', ''main'', ''latest''])
               then (''/'', [''real'', ''proj'', ''main'', ''20240101_120000''])
               else if fst p = ''/'' \<and> take 1 (snd p) = [''link'']
               then (''/'', ''real'' # drop 1 (snd p))
               else p),
      is_dir = (\<lambda>p. p \<in> {(''/'', [''real'']), (''/'', [''real'', ''proj'']),
                            (''/'', [''real'', ''proj'', ''main'']),
                            (''/'', [''real'', ''proj'', ''main'', ''20240101_120000''])}),
      read_text =
        map_of
          [((''/'', [''link'', ''proj'', ''main'', ''20240101_120000'', ''plans'', ''x.md'']),
            ''jwt rotation bug'')],
      now = ''2024-01-02T10:00:00'',
      encodable = (\<lambda>s. True)\<rparr>"

text \<open>A search with an empty project filter and the limit \<open>-1\<close>.\<close>

definition unbounded_args :: search_args where
  "unbounded_args =
     \<lparr>arg_pattern = ''jwt'', arg_project = Some [], arg_type = None,
      arg_branch = None, arg_latest = False, arg_n = - 1\<rparr>"

section \<open>Properties of the Path Classifier\<close>

lemma relative_to_child: "relative_to (child base rel) base = Inr rel"
  by (cases base) simp

lemma parse_archive_path_under_root:
  "parse_archive_path (child base rel) base =
     (if 4 \<le> length rel \<and> TIMESTAMP_RE_match (rel ! 2)
      then Inr (Some \<lparr>project = rel ! 0, branch = rel ! 1, timestamp = rel ! 2,
                      dir_type = Some (if rel ! 3 \<in> VALID_TYPES then rel ! 3 else ''root'')\<rparr>)
      else Inr None)"
  by (auto simp add: parse_archive_path_def relative_to_child)

lemma timestamp_fullmatch_imp_match: "timestamp_fullmatch s \<Longrightarrow> TIMESTAMP_RE_match s"
  by (simp add: timestamp_fullmatch_def TIMESTAMP_RE_match_def)

lemma md_not_valid_type: "suffix ''.md'' f \<Longrightarrow> f \<notin> VALID_TYPES"
  by (auto simp add: VALID_TYPES_def suffix_to_prefix)

lemma root_not_valid_type: "''root'' \<notin> VALID_TYPES"
  by (simp add: VALID_TYPES_def)

lemma timestamp_example: "timestamp_fullmatch ''20240101_120000''"
  by (simp add: timestamp_fullmatch_def timestamp_rest_def isdigit_def eval_nat_numeral)

text \<open>What \<open>TIMESTAMP_RE.match\<close> accepts beyond the pattern is one final newline.\<close>

lemma match_digits_Some_iff:
  "match_digits n s = Some r \<longleftrightarrow> (\<exists>ds. s = ds @ r \<and> length ds = n \<and> list_all isdigit ds)"
proof (induction n s rule: match_digits.induct)
  case (1 s)
  show ?case by auto
next
  case (2 n)
  show ?case by auto
next
  case (3 n c cs)
  show ?case
  proof
    assume "match_digits (Suc n) (c # cs) = Some r"
    then have d: "isdigit c" and m: "match_digits n cs = Some r"
      by (simp_all split: if_splits)
    from m 3 d obtain ds where "cs = ds @ r" "length ds = n" "list_all isdigit ds" by auto
    with d have "c # cs = (c # ds) @ r \<and> length (c # ds) = Suc n \<and> list_all isdigit (c # ds)"
      by simp
    then show "\<exists>ds. c # cs = ds @ r \<and> length ds = Suc n \<and> list_all isdigit ds" by blast
  next
    assume "\<exists>ds. c # cs = ds @ r \<and> length ds = Suc n \<and> list_all isdigit ds"
    then obtain ds where ds: "c # cs = ds @ r" "length ds = Suc n" "list_all isdigit ds"
      by blast
    from ds(2) obtain x xs where x: "ds = x # xs" by (cases ds) auto
    with ds have "x = c" "cs = xs @ r" "length xs = n" "isdigit c" "list_all isdigit xs"
      by auto
    with 3 show "match_digits (Suc n) (c # cs) = Some r" by auto
  qed
qed

lemma timestamp_rest_Some_iff:
  "timestamp_rest s = Some r \<longleftrightarrow>
     (\<exists>d1 d2. s = d1 @ CHR ''_'' # d2 @ r \<and> length d1 = 8 \<and> list_all isdigit d1
               \<and> length d2 = 6 \<and> list_all isdigit d2)"
proof
  assume "timestamp_rest s = Some r"
  then obtain r1 r2 where a: "match_digits 8 s = Some r1" and b: "r1 = CHR ''_'' # r2"
    and c: "match_digits 6 r2 = Some r"
    by (auto simp add: timestamp_rest_def split: option.splits list.splits if_splits)
  from a obtain d1 where "s = d1 @ r1" "length d1 = 8" "list_all isdigit d1"
    by (auto simp add: match_digits_Some_iff)
  moreover from c obtain d2 where "r2 = d2 @ r" "length d2 = 6" "list_all isdigit d2"
    by (auto simp add: match_digits_Some_iff)
  ultimately show "\<exists>d1 d2. s = d1 @ CHR ''_'' # d2 @ r \<and> length d1 = 8 \<and> list_all isdigit d1
               \<and> length d2 = 6 \<and> list_all isdigit d2"
    using b by auto
next
  assume "\<exists>d1 d2. s = d1 @ CHR ''_'' # d2 @ r \<and> length d1 = 8 \<and> list_all isdigit d1
               \<and> length d2 = 6 \<and> list_all isdigit d2"
  then obtain d1 d2 where s: "s = d1 @ CHR ''_'' # d2 @ r" and d1: "length d1 = 8" "list_all isdigit d1"
    and d2: "length d2 = 6" "list_all isdigit d2" by blast
  from s d1 have a: "match_digits 8 s = Some (CHR ''_'' # d2 @ r)"
    unfolding match_digits_Some_iff by blast
  from d2 have c: "match_digits 6 (d2 @ r) = Some r"
    unfolding match_digits_Some_iff by blast
  from a c show "timestamp_rest s = Some r" by (simp add: timestamp_rest_def)
qed

lemma timestamp_rest_append:
  "timestamp_rest s = Some r \<longleftrightarrow> (\<exists>body. s = body @ r \<and> timestamp_fullmatch body)"
proof
  assume "timestamp_rest s = Some r"
  then obtain d1 d2 where s: "s = d1 @ CHR ''_'' # d2 @ r" and d: "length d1 = 8" "list_all isdigit d1"
      "length d2 = 6" "list_all isdigit d2"
    unfolding timestamp_rest_Some_iff by blast
  from d have "timestamp_fullmatch (d1 @ CHR ''_'' # d2)"
    unfolding timestamp_fullmatch_def timestamp_rest_Some_iff by auto
  with s show "\<exists>body. s = body @ r \<and> timestamp_fullmatch body"
    by (intro exI [of _ "d1 @ CHR ''_'' # d2"]) simp
next
  assume "\<exists>body. s = body @ r \<and> timestamp_fullmatch body"
  then obtain body where s: "s = body @ r" and "timestamp_fullmatch body" by blast
  then obtain d1 d2 where "body = d1 @ CHR ''_'' # d2" "length d1 = 8" "list_all isdigit d1"
      "length d2 = 6" "list_all isdigit d2"
    unfolding timestamp_fullmatch_def timestamp_rest_Some_iff by auto
  with s show "timestamp_rest s = Some r"
    unfolding timestamp_rest_Some_iff by auto
qed

lemma TIMESTAMP_RE_match_iff:
  "TIMESTAMP_RE_match s \<longleftrightarrow>
     timestamp_fullmatch s \<or> (\<exists>body. s = body @ [newline] \<and> timestamp_fullmatch body)"
proof -
  have "TIMESTAMP_RE_match s \<longleftrightarrow> timestamp_rest s = Some [] \<or> timestamp_rest s = Some [newline]"
    by (auto simp add: TIMESTAMP_RE_match_def split: option.splits)
  also have "\<dots> \<longleftrightarrow> timestamp_fullmatch s \<or> (\<exists>body. s = body @ [newline] \<and> timestamp_fullmatch body)"
    unfolding timestamp_rest_append [of s "[newline]"] by (simp add: timestamp_fullmatch_def)
  finally show ?thesis .
qed

lemma parse_archive_path_accepts_iff:
  "(\<exists>f. parse_archive_path (child base rel) base = Inr (Some f)) \<longleftrightarrow>
     4 \<le> length rel
     \<and> (timestamp_fullmatch (rel ! 2)
        \<or> (\<exists>body. rel ! 2 = body @ [newline] \<and> timestamp_fullmatch body))"
  by (simp add: parse_archive_path_under_root TIMESTAMP_RE_match_iff)

text \<open>
  C3. The classifier is to accept a path under the root exactly when its relative path
  has at least four segments and the third one fully matches \<open>\d{8}_\d{6}\<close>. The code
  tests the third segment with \<open>TIMESTAMP_RE.match\<close>, whose \<open>$\<close> also matches before a
  final newline: the segment \<open>20240101_120000\<close> followed by a newline does not fully
  match the pattern, and the classifier still returns facets for it.
\<close>

theorem parse_archive_path_accepts_trailing_newline:
  "parse_archive_path
     (''/'', [''a'', ''proj'', ''main'', ''20240101_120000'' @ [newline], ''plans'', ''x.md''])
     (''/'', [''a''])
     = Inr (Some \<lparr>project = ''proj'', branch = ''main'',
                    timestamp = ''20240101_120000'' @ [newline], dir_type = Some ''plans''\<rparr>)
   \<and> \<not> timestamp_fullmatch (''20240101_120000'' @ [newline])"
  by (simp add: parse_archive_path_def TIMESTAMP_RE_match_def
        timestamp_rest_def isdigit_def newline_def VALID_TYPES_def timestamp_fullmatch_def
        eval_nat_numeral)



text \<open>
  C5. Round trip: for a path under the root that follows the archive convention, the
  classifier returns facets, and the relative path rebuilt from these facets and the
  file name is the original relative path; the category segment is left out when the
  category is the \<open>root\<close> marker, that is when the original path has none.
\<close>

theorem parse_archive_path_round_trip:
  assumes "archive_convention rel"
  shows "\<exists>f. parse_archive_path (child archive_base rel) archive_base = Inr (Some f)
           \<and> rebuild_rel_path f (last rel) = rel"
  using assms
  by (auto simp add: archive_convention_def parse_archive_path_under_root rebuild_rel_path_def
        timestamp_fullmatch_imp_match md_not_valid_type root_not_valid_type split: list.splits)

theorem parse_archive_path_round_trip_witness:
  "archive_convention [''proj'', ''main'', ''20240101_120000'', ''plans'', ''x.md'']
   \<and> (\<exists>f. parse_archive_path
              (child (''/'', [''a''])
                 [''proj'', ''main'', ''20240101_120000'', ''plans'', ''x.md''])
              (''/'', [''a'']) = Inr (Some f)
          \<and> rebuild_rel_path f (last [''proj'', ''main'', ''20240101_120000'', ''plans'', ''x.md''])
              = [''proj'', ''main'', ''20240101_120000'', ''plans'', ''x.md''])"
proof -
  have h: "archive_convention [''proj'', ''main'', ''20240101_120000'', ''plans'', ''x.md'']"
    by (simp add: archive_convention_def timestamp_example VALID_TYPES_def suffix_def)
  from parse_archive_path_round_trip [OF h, of "(''/'', [''a''])"] h show ?thesis by blast
qed

section \<open>Properties of search\<close>

lemma set_sql_limit: "set (sql_limit k xs) \<subseteq> set xs"
  by (auto simp add: sql_limit_def dest: in_set_takeD)

lemma length_sql_limit: "0 \<le> k \<Longrightarrow> int (length (sql_limit k xs)) \<le> k"
  by (simp add: sql_limit_def)

lemma sorted_sql_limit:
  assumes "sorted (map f xs)"
  shows "sorted (map f (sql_limit k xs))"
proof (cases "k < 0")
  case True
  with assms show ?thesis by (simp add: sql_limit_def)
next
  case False
  have "sorted (take (nat k) (map f xs))"
    using assms by (rule sorted_wrt_take)
  with False show ?thesis by (simp add: sql_limit_def take_map)
qed

lemma where_conditions_nonempty:
  assumes "list_all (\<lambda>cond. cond d) (where_conditions args)"
  shows "satisfies_nonempty args d"
proof -
  have p: "case arg_project args of None \<Rightarrow> True | Some v \<Rightarrow> v = [] \<or> project d = v"
    using assms
    by (cases "arg_project args")
      (simp_all add: where_conditions_def truthy_def split: if_splits)
  have t: "case arg_type args of None \<Rightarrow> True | Some v \<Rightarrow> v = [] \<or> dir_type d = Some v"
    using assms
    by (cases "arg_type args")
      (simp_all add: where_conditions_def truthy_def split: if_splits)
  have b: "case arg_branch args of None \<Rightarrow> True | Some v \<Rightarrow> v = [] \<or> branch d = v"
    using assms
    by (cases "arg_branch args")
      (simp_all add: where_conditions_def truthy_def split: if_splits)
  have l: "arg_latest args \<longrightarrow> is_latest d = 1"
    using assms by (simp add: where_conditions_def split: if_splits)
  from p t b l show ?thesis by (simp add: satisfies_nonempty_def)
qed

lemma matching_documents_sound:
  assumes "(d, r) \<in> set (matching_documents eng s args)"
  shows "d \<in> set (documents s) \<and> list_all (\<lambda>cond. cond d) (where_conditions args)
         \<and> r = fts5_rank eng (arg_pattern args) (documents_fts s) (doc_id d)"
  using assms by (auto simp add: matching_documents_def)

lemma do_search_Present:
  assumes "do_search env eng s args = Present rows"
  shows "rows = map result_columns
              (sql_limit (arg_n args) (sort_key snd (matching_documents eng s args)))"
proof (cases "execute_search (encodable env) eng s args")
  case (Inl e)
  with assms show ?thesis
    by (cases e) (simp_all add: do_search_def split: if_splits)
next
  case (Inr found)
  with assms have "rows = found"
    by (simp add: do_search_def split: if_splits)
  with Inr have ex: "execute_search (encodable env) eng s args = Inr rows" by simp
  from assms Inr have "rows \<noteq> []"
    by (simp add: do_search_def split: if_splits)
  with ex have "arg_n args \<noteq> 0"
    by (auto simp add: execute_search_def split: if_splits)
  with ex show ?thesis
    by (cases "fts5_syntax_error eng (arg_pattern args)")
       (simp_all add: execute_search_def split: if_splits)
qed

lemma search_row_sound:
  assumes "row \<in> set (map result_columns
              (sql_limit k (sort_key snd (matching_documents eng s args))))"
  shows "\<exists>d\<in>set (documents s).
           row = result_columns (d, fts5_rank eng (arg_pattern args) (documents_fts s) (doc_id d))
           \<and> satisfies_nonempty args d"
proof -
  from assms obtain dr
    where dr: "dr \<in> set (sql_limit k (sort_key snd (matching_documents eng s args)))"
      and row: "row = result_columns dr"
    unfolding set_map by (elim imageE)
  obtain d r where p: "dr = (d, r)" by (cases dr)
  from dr have "dr \<in> set (sort_key snd (matching_documents eng s args))"
    using set_sql_limit [of k "sort_key snd (matching_documents eng s args)"]
    by (rule_tac subsetD)
  then have "(d, r) \<in> set (matching_documents eng s args)" by (simp add: p)
  from matching_documents_sound [OF this]
  have "d \<in> set (documents s)" and "satisfies_nonempty args d"
    and "r = fts5_rank eng (arg_pattern args) (documents_fts s) (doc_id d)"
    by (simp_all add: where_conditions_nonempty)
  with row p show ?thesis by blast
qed

lemma row_rank_result_columns: "row_rank (result_columns dr) = snd dr"
  by (cases dr) (simp add: row_rank_def result_columns_def)

lemma search_rows_sorted:
  "sorted (map row_rank (map result_columns
              (sql_limit k (sort_key snd (matching_documents eng s args)))))"
proof -
  have "sorted (map snd (sql_limit k (sort_key snd (matching_documents eng s args))))"
    by (rule sorted_sql_limit) simp
  then show ?thesis by (simp add: row_rank_result_columns comp_def)
qed

text \<open>
  C1, as amended. Every row a search returns is the row of a document of the store
  that satisfies every filter given with a non-empty value, all of them at once, and
  when the limit is not negative there are at most that many rows. (An empty filter
  value is not applied, and a negative limit is no limit.)
\<close>

theorem search_filters_conjunctive:
  assumes "do_search env eng s args = Present rows"
  shows "(\<forall>row\<in>set rows. \<exists>d\<in>set (documents s). \<exists>r.
             row = result_columns (d, r) \<and> satisfies_nonempty args d)
         \<and> (0 \<le> arg_n args \<longrightarrow> int (length rows) \<le> arg_n args)"
proof -
  have eq: "rows = map result_columns
              (sql_limit (arg_n args) (sort_key snd (matching_documents eng s args)))"
    by (rule do_search_Present [OF assms])
  have "\<exists>d\<in>set (documents s). \<exists>r. row = result_columns (d, r) \<and> satisfies_nonempty args d"
    if "row \<in> set rows" for row
    using search_row_sound [OF that [unfolded eq]] by blast
  moreover have "0 \<le> arg_n args \<longrightarrow> int (length rows) \<le> arg_n args"
    unfolding eq by (simp add: length_sql_limit)
  ultimately show ?thesis by blast
qed

theorem search_filters_conjunctive_witness:
  "do_search example_env example_engine example_store example_args = Present
     [(''/a/proj/main/20240101_120000/plans/x.md'', ''proj'', ''main'', ''20240101_120000'',
       Some ''plans'', ''x.md'', - 2 / 3),
      (''/a/proj/main/20240101_120000/research/y.md'', ''proj'', ''main'',
       ''20240101_120000'', Some ''research'', ''y.md'', - 2 / 4)]
   \<and> (\<exists>d\<in>set (documents example_store). \<exists>r.
         (''/a/proj/main/20240101_120000/plans/x.md'', ''proj'', ''main'',
          ''20240101_120000'', Some ''plans'', ''x.md'', - 2 / 3) = result_columns (d, r)
         \<and> satisfies_nonempty example_args d)
   \<and> (\<exists>d\<in>set (documents example_store). \<exists>r.
         (''/a/proj/main/20240101_120000/research/y.md'', ''proj'', ''main'',
          ''20240101_120000'', Some ''research'', ''y.md'', - 2 / 4) = result_columns (d, r)
         \<and> satisfies_nonempty example_args d)
   \<and> 0 \<le> arg_n example_args
   \<and> int (length
         [(''/a/proj/main/20240101_120000/plans/x.md'', ''proj'', ''main'',
           ''20240101_120000'', Some ''plans'', ''x.md'', - 2 / (3::real)),
          (''/a/proj/main/20240101_120000/research/y.md'', ''proj'', ''main'',
           ''20240101_120000'', Some ''research'', ''y.md'', - 2 / 4)]) \<le> arg_n example_args"
proof -
  have h: "do_search example_env example_engine example_store example_args = Present
     [(''/a/proj/main/20240101_120000/plans/x.md'', ''proj'', ''main'', ''20240101_120000'',
       Some ''plans'', ''x.md'', - 2 / 3),
      (''/a/proj/main/20240101_120000/research/y.md'', ''proj'', ''main'',
       ''20240101_120000'', Some ''research'', ''y.md'', - 2 / 4)]"
    by code_simp
  have n: "0 \<le> arg_n example_args"
    by (simp add: example_args_def)
  note c = search_filters_conjunctive [OF h]
  from c have a: "\<forall>row\<in>set
     [(''/a/proj/main/20240101_120000/plans/x.md'', ''proj'', ''main'', ''20240101_120000'',
       Some ''plans'', ''x.md'', - 2 / 3),
      (''/a/proj/main/20240101_120000/research/y.md'', ''proj'', ''main'',
       ''20240101_120000'', Some ''research'', ''y.md'', - 2 / 4)].
     \<exists>d\<in>set (documents example_store). \<exists>r.
        row = result_columns (d, r) \<and> satisfies_nonempty example_args d"
    by (rule conjunct1)
  from c n have b: "int (length
         [(''/a/proj/main/20240101_120000/plans/x.md'', ''proj'', ''main'',
           ''20240101_120000'', Some ''plans'', ''x.md'', - 2 / (3::real)),
          (''/a/proj/main/20240101_120000/research/y.md'', ''proj'', ''main'',
           ''20240101_120000'', Some ''research'', ''y.md'', - 2 / 4)]) \<le> arg_n example_args"
    by blast
  from a have a1: "\<exists>d\<in>set (documents example_store). \<exists>r.
         (''/a/proj/main/20240101_120000/plans/x.md'', ''proj'', ''main'',
          ''20240101_120000'', Some ''plans'', ''x.md'', - 2 / 3) = result_columns (d, r)
         \<and> satisfies_nonempty example_args d"
    by (rule bspec) simp
  from a have a2: "\<exists>d\<in>set (documents example_store). \<exists>r.
         (''/a/proj/main/20240101_120000/research/y.md'', ''proj'', ''main'',
          ''20240101_120000'', Some ''research'', ''y.md'', - 2 / 4) = result_columns (d, r)
         \<and> satisfies_nonempty example_args d"
    by (rule bspec) simp
  from h a1 a2 n b show ?thesis by (intro conjI)
qed

text \<open>
  C1 as stated fails: with the project filter given as the empty string and the limit
  \<open>-1\<close>, the search returns three rows, more than the limit, and the document of the
  first row does not have the project that was given.
\<close>

theorem search_filters_counterexample:
  "do_search example_env example_engine example_store unbounded_args = Present
     [(''/a/proj/main/20240101_120000/plans/x.md'', ''proj'', ''main'', ''20240101_120000'',
       Some ''plans'', ''x.md'', - 1 / 3),
      (''/a/other/dev/20240202_090000/notes.md'', ''other'', ''dev'', ''20240202_090000'',
       Some ''root'', ''notes.md'', - 1 / 3),
      (''/a/proj/main/20240101_120000/research/y.md'', ''proj'', ''main'',
       ''20240101_120000'', Some ''research'', ''y.md'', - 1 / 4)]
   \<and> \<not> (3 \<le> arg_n unbounded_args)
   \<and> \<not> (\<exists>d\<in>set (documents example_store).
            filepath d = ''/a/proj/main/20240101_120000/plans/x.md''
            \<and> satisfies_supplied unbounded_args d)"
  by code_simp

text \<open>
  C2. The rows of a search that succeeds are in the order of their rank, the best match
  (the smallest rank) first: a row never comes after a row with a larger rank. The
  rank of a row is the one the engine gives to its document for the query.
\<close>

theorem search_results_ranked:
  assumes "do_search env eng s args = Present rows"
  shows "(\<forall>i j. i < j \<and> j < length rows \<longrightarrow> row_rank (rows ! i) \<le> row_rank (rows ! j))
         \<and> (\<forall>row\<in>set rows. \<exists>d\<in>set (documents s).
               row_rank row = fts5_rank eng (arg_pattern args) (documents_fts s) (doc_id d)
               \<and> row = result_columns (d, row_rank row))"
proof -
  have eq: "rows = map result_columns
              (sql_limit (arg_n args) (sort_key snd (matching_documents eng s args)))"
    by (rule do_search_Present [OF assms])
  have "sorted (map row_rank rows)"
    unfolding eq by (rule search_rows_sorted)
  then have "\<forall>i j. i < j \<and> j < length rows \<longrightarrow> row_rank (rows ! i) \<le> row_rank (rows ! j)"
    by (simp add: sorted_iff_nth_mono_less)
  moreover have "\<exists>d\<in>set (documents s).
               row_rank row = fts5_rank eng (arg_pattern args) (documents_fts s) (doc_id d)
               \<and> row = result_columns (d, row_rank row)"
    if "row \<in> set rows" for row
  proof -
    from search_row_sound [OF that [unfolded eq]] obtain d
      where "d \<in> set (documents s)"
        and "row = result_columns
               (d, fts5_rank eng (arg_pattern args) (documents_fts s) (doc_id d))"
      by blast
    then show ?thesis by (auto simp add: row_rank_result_columns)
  qed
  ultimately show ?thesis by blast
qed

theorem search_results_ranked_witness:
  "do_search example_env example_engine example_store unbounded_args = Present
     [(''/a/proj/main/20240101_120000/plans/x.md'', ''proj'', ''main'', ''20240101_120000'',
       Some ''plans'', ''x.md'', - 1 / 3),
      (''/a/other/dev/20240202_090000/notes.md'', ''other'', ''dev'', ''20240202_090000'',
       Some ''root'', ''notes.md'', - 1 / 3),
      (''/a/proj/main/20240101_120000/research/y.md'', ''proj'', ''main'',
       ''20240101_120000'', Some ''research'', ''y.md'', - 1 / 4)]
   \<and> row_rank (''/a/proj/main/20240101_120000/plans/x.md'', ''proj'', ''main'',
                ''20240101_120000'', Some ''plans'', ''x.md'', - 1 / 3)
       \<le> row_rank (''/a/proj/main/20240101_120000/research/y.md'', ''proj'', ''main'',
                    ''20240101_120000'', Some ''research'', ''y.md'', - 1 / 4)"
proof -
  have h: "do_search example_env example_engine example_store unbounded_args = Present
     [(''/a/proj/main/20240101_120000/plans/x.md'', ''proj'', ''main'', ''20240101_120000'',
       Some ''plans'', ''x.md'', - 1 / 3),
      (''/a/other/dev/20240202_090000/notes.md'', ''other'', ''dev'', ''20240202_090000'',
       Some ''root'', ''notes.md'', - 1 / 3),
      (''/a/proj/main/20240101_120000/research/y.md'', ''proj'', ''main'',
       ''20240101_120000'', Some ''research'', ''y.md'', - 1 / 4)]"
    by code_simp
  from search_results_ranked [OF h]
  have "\<forall>i j. i < j \<and> j < length
     [(''/a/proj/main/20240101_120000/plans/x.md'', ''proj'', ''main'', ''20240101_120000'',
       Some ''plans'', ''x.md'', - 1 / (3::real)),
      (''/a/other/dev/20240202_090000/notes.md'', ''other'', ''dev'', ''20240202_090000'',
       Some ''root'', ''notes.md'', - 1 / 3),
      (''/a/proj/main/20240101_120000/research/y.md'', ''proj'', ''main'',
       ''20240101_120000'', Some ''research'', ''y.md'', - 1 / 4)] \<longrightarrow>
      row_rank ([(''/a/proj/main/20240101_120000/plans/x.md'', ''proj'', ''main'',
       ''20240101_120000'', Some ''plans'', ''x.md'', - 1 / 3),
      (''/a/other/dev/20240202_090000/notes.md'', ''other'', ''dev'', ''20240202_090000'',
       Some ''root'', ''notes.md'', - 1 / 3),
      (''/a/proj/main/20240101_120000/research/y.md'', ''proj'', ''main'',
       ''20240101_120000'', Some ''research'', ''y.md'', - 1 / 4)] ! i)
      \<le> row_rank ([(''/a/proj/main/20240101_120000/plans/x.md'', ''proj'', ''main'',
       ''20240101_120000'', Some ''plans'', ''x.md'', - 1 / 3),
      (''/a/other/dev/20240202_090000/notes.md'', ''other'', ''dev'', ''20240202_090000'',
       Some ''root'', ''notes.md'', - 1 / 3),
      (''/a/proj/main/20240101_120000/research/y.md'', ''proj'', ''main'',
       ''20240101_120000'', Some ''research'', ''y.md'', - 1 / 4)] ! j)"
    by (rule conjunct1)
  from this [rule_format, of 0 2] h show ?thesis by simp
qed




text \<open>
  C10. The line locator answers 1 when it finds nothing: when the file of the result
  cannot be read, and when no line of the file contains, without regard to case, any of
  the terms of the query (its words, double quotes removed).
\<close>

theorem find_match_line_default:
  assumes "read_text env (Path fp) = None
           \<or> (\<exists>content. read_text env (Path fp) = Some content
                 \<and> (\<forall>line\<in>set (splitlines content). \<forall>t\<in>set (query_terms pattern).
                       \<not> sublist (lower t) (lower line)))"
  shows "find_match_line env fp pattern = 1"
proof -
  have none: "first_match_line terms i ls = None"
    if "\<forall>line\<in>set ls. \<forall>t\<in>set terms. \<not> sublist (lower t) (lower line)"
    for terms i ls
    using that by (induction ls arbitrary: i) auto
  from assms show ?thesis
  proof
    assume "read_text env (Path fp) = None"
    then show ?thesis by (simp add: find_match_line_def)
  next
    assume "\<exists>content. read_text env (Path fp) = Some content
                 \<and> (\<forall>line\<in>set (splitlines content). \<forall>t\<in>set (query_terms pattern).
                       \<not> sublist (lower t) (lower line))"
    then obtain content where t: "read_text env (Path fp) = Some content"
      and n: "\<forall>line\<in>set (splitlines content). \<forall>t\<in>set (query_terms pattern).
                       \<not> sublist (lower t) (lower line)" by blast
    from none [OF n] t show ?thesis by (simp add: find_match_line_def)
  qed
qed

theorem find_match_line_default_witness:
  "read_text example_env (Path ''/a/proj/main/20240101_120000/plans/x.md'')
     = Some ''jwt rotation bug''
   \<and> \<not> (\<exists>line\<in>set (splitlines ''jwt rotation bug''). \<exists>t\<in>set (query_terms ''Design notes'').
           sublist (lower t) (lower line))
   \<and> find_match_line example_env ''/a/proj/main/20240101_120000/plans/x.md''
         ''Design notes'' = 1
   \<and> read_text example_env (Path ''/a/proj/main/20231231_235959/plans/locked.md'') = None
   \<and> find_match_line example_env ''/a/proj/main/20231231_235959/plans/locked.md''
         ''Design notes'' = 1"
proof -
  have r: "read_text example_env (Path ''/a/proj/main/20240101_120000/plans/x.md'')
     = Some ''jwt rotation bug''"
    by code_simp
  have n: "\<forall>line\<in>set (splitlines ''jwt rotation bug''). \<forall>t\<in>set (query_terms ''Design notes'').
         \<not> sublist (lower t) (lower line)"
    by code_simp
  have l: "read_text example_env (Path ''/a/proj/main/20231231_235959/plans/locked.md'') = None"
    by code_simp
  from r n have h1: "read_text example_env (Path ''/a/proj/main/20240101_120000/plans/x.md'') = None
           \<or> (\<exists>content. read_text example_env (Path ''/a/proj/main/20240101_120000/plans/x.md'')
                   = Some content
                 \<and> (\<forall>line\<in>set (splitlines content). \<forall>t\<in>set (query_terms ''Design notes'').
                       \<not> sublist (lower t) (lower line)))"
    by blast
  from l have h2: "read_text example_env (Path ''/a/proj/main/20231231_235959/plans/locked.md'') = None
           \<or> (\<exists>content. read_text example_env (Path ''/a/proj/main/20231231_235959/plans/locked.md'')
                   = Some content
                 \<and> (\<forall>line\<in>set (splitlines content). \<forall>t\<in>set (query_terms ''Design notes'').
                       \<not> sublist (lower t) (lower line)))"
    by blast
  from find_match_line_default [OF h1] find_match_line_default [OF h2] r n l
  show ?thesis by blast
qed

section \<open>Properties of ingestion\<close>






































text \<open>
  C7. A file inside the directory that is the resolved target of a link named \<open>latest\<close>
  is to be flagged. The code compares the path \<open><root>/<project>/<branch>/<timestamp>\<close>
  of the file as a string, built on the root as it was given, with the resolved paths
  of the links. In the archive whose root \<open>/link\<close> is a symbolic link to \<open>/real\<close>, the
  link \<open>latest\<close> of the branch is a symbolic link, its target is a directory, and that
  directory is the timestamp directory of the file \<open>x.md\<close> (the two paths resolve to the
  same one); the Latest Resolver returns the resolved path \<open>/real/...\<close>; and the run
  inserts the file with \<open>is_latest\<close> 0.
\<close>

theorem latest_target_not_flagged:
  "is_symlink linked_env (''/'', [''link'', ''proj'', ''main'', ''latest''])
   \<and> is_dir linked_env (resolve linked_env (''/'', [''link'', ''proj'', ''main'', ''latest'']))
   \<and> resolve linked_env (''/'', [''link'', ''proj'', ''main'', ''latest''])
       = resolve linked_env
           (timestamp_dir linked_env
              \<lparr>project = ''proj'', branch = ''main'', timestamp = ''20240101_120000'',
               dir_type = Some ''plans''\<rparr>)
   \<and> resolve_latest_timestamps linked_env (ARCHIVE_BASE linked_env)
       = {''/real/proj/main/20240101_120000''}
   \<and> parse_archive_path
         (''/'', [''link'', ''proj'', ''main'', ''20240101_120000'', ''plans'', ''x.md''])
         (ARCHIVE_BASE linked_env)
       = Inr (Some \<lparr>project = ''proj'', branch = ''main'', timestamp = ''20240101_120000'',
                     dir_type = Some ''plans''\<rparr>)
   \<and> do_ingest linked_env None example_store =
       Inr (\<lparr>exit_code = 0,
             stdout = [Indexed 1 (''/'', [''link'', ''archives.db''])], stderr = []\<rparr>,
            \<lparr>documents =
               [\<lparr>project = ''proj'', branch = ''main'', timestamp = ''20240101_120000'',
                 dir_type = Some ''plans'', doc_id = 1,
                 filepath = ''/link/proj/main/20240101_120000/plans/x.md'',
                 filename = ''x.md'', is_latest = 0,
                 indexed_at = ''2024-01-02T10:00:00''\<rparr>],
             documents_fts = [(1, ''jwt rotation bug'')]\<rparr>)"
  by code_simp

text \<open>
  C9. No failure on one file is to abort the batch once the two checks made up front
  have passed. The loop body catches the failure of the read and \<open>IntegrityError\<close>,
  and nothing else. In the archive with a file whose name is not valid UTF-8, the root
  exists and the file can be read, and the run ends on that file with
  \<open>UnicodeEncodeError\<close>, raised when its path is bound as a parameter of the insert: the
  run does not complete, commits nothing after the tables were emptied (the document of
  \<open>x.md\<close>, inserted before, is lost, and \<open>y.md\<close> is never reached) and reports no count.
  Likewise with the project argument \<open>/tmp\<close> both checks pass (the root exists, and the
  directory scanned, \<open>/tmp\<close>, exists), and the first markdown file found there ends the
  run with \<open>ValueError\<close>, raised by \<open>relative_to\<close> and caught nowhere.
\<close>

theorem ingest_aborts_on_one_file:
  "path_exists badname_env (ARCHIVE_BASE badname_env)
   \<and> rglob badname_env (scan_root badname_env None) (suffix ''.md'')
       = [(''/'', [''a'', ''proj'', ''main'', ''20240101_120000'', ''plans'', ''x.md'']),
          (''/'', [''a'', ''proj'', ''main'', ''20240101_120000'', ''plans'',
                   ''menu'' @ [CHR 0xE9] @ ''.md'']),
          (''/'', [''a'', ''proj'', ''main'', ''20240101_120000'', ''research'', ''y.md''])]
   \<and> read_text badname_env
         (''/'', [''a'', ''proj'', ''main'', ''20240101_120000'', ''plans'',
                  ''menu'' @ [CHR 0xE9] @ ''.md'']) = Some ''soup''
   \<and> do_ingest badname_env None example_store
       = Inl (UnicodeEncodeError, \<lparr>documents = [], documents_fts = []\<rparr>)
   \<and> path_exists stray_env (ARCHIVE_BASE stray_env)
   \<and> path_exists stray_env (scan_root stray_env (Some ''/tmp''))
   \<and> do_ingest stray_env (Some ''/tmp'') example_store = Inl (ValueError, example_store)"
  by code_simp

end
